theory Spec2Isabelle
  imports Main "HOL-Library.Word"
begin

unbundle bit_operations_syntax

section \<open>The OSPFS image\<close>

text \<open>
  \<^verbatim>\<open>ospfsmod.c\<close> works on one array of raw memory, \<^verbatim>\<open>ospfs_data[]\<close>. The header
  \<^verbatim>\<open>ospfs.h\<close> that declares the structures and the constants is not among the sources, so
  the constants below carry the values the specification fixes for its scenarios
  (\<open>B = 1024\<close>, \<open>ND = 10\<close>, \<open>NI = B / 4 = 256\<close>, \<open>DE = 128\<close>, \<open>MAXNAMELEN = 56\<close>), the free
  bitmap starts at block 2 as the comment in \<^verbatim>\<open>allocate_block\<close> says, and the structures
  are records with the fields the code reads and writes.

  The superblock and the inode table are kept as typed records beside the raw bytes: the
  code only ever reaches them through \<^verbatim>\<open>ospfs_super\<close> and \<^verbatim>\<open>ospfs_inode(ino)\<close>. All other
  blocks (the bitmap, index blocks, file data, directory entries) are bytes of the image,
  and a 32-bit value is stored least significant byte first, as on the x86 the module is
  built for. The records do not follow a write that reaches the superblock or the inode
  table through a block number, as when \<^verbatim>\<open>allocate_block\<close> hands out a block of the inode
  table and \<^verbatim>\<open>add_block\<close> zeroes it: the model stands for the code on the runs that read and
  write no byte of these blocks as data.
\<close>

abbreviation (input) OSPFS_BLKSIZE :: nat where "OSPFS_BLKSIZE \<equiv> 1024"
abbreviation (input) OSPFS_BLKBITSIZE :: nat where "OSPFS_BLKBITSIZE \<equiv> 8192"
abbreviation (input) OSPFS_FREEMAP_BLK :: nat where "OSPFS_FREEMAP_BLK \<equiv> 2"
abbreviation (input) OSPFS_NDIRECT :: nat where "OSPFS_NDIRECT \<equiv> 10"
abbreviation (input) OSPFS_NINDIRECT :: nat where "OSPFS_NINDIRECT \<equiv> 256"
abbreviation (input) OSPFS_DIRENTRY_SIZE :: nat where "OSPFS_DIRENTRY_SIZE \<equiv> 128"

text \<open>Modelled from the spec: \<^verbatim>\<open>OSPFS_MAXNAMELEN\<close> is declared in the missing header; the
  specification's scenarios fix \<open>MAXNAMELEN = 56\<close>.\<close>

abbreviation (input) OSPFS_MAXNAMELEN :: nat where "OSPFS_MAXNAMELEN \<equiv> 56"

text \<open>The error numbers of the Linux kernel that the module returns negated.\<close>

abbreviation (input) EIO :: int where "EIO \<equiv> 5"
abbreviation (input) EEXIST :: int where "EEXIST \<equiv> 17"
abbreviation (input) ENOENT :: int where "ENOENT \<equiv> 2"
abbreviation (input) ENOSPC :: int where "ENOSPC \<equiv> 28"
abbreviation (input) ENAMETOOLONG :: int where "ENAMETOOLONG \<equiv> 36"

type_synonym image = "nat \<Rightarrow> 8 word"

definition rd32 :: "image \<Rightarrow> nat \<Rightarrow> 32 word" where
  "rd32 m a =
     ucast (m a) OR push_bit 8 (ucast (m (a + 1))) OR
     push_bit 16 (ucast (m (a + 2))) OR push_bit 24 (ucast (m (a + 3)))"

definition wr32 :: "image \<Rightarrow> nat \<Rightarrow> 32 word \<Rightarrow> image" where
  "wr32 m a v =
     (\<lambda>x. if x = a then ucast v
          else if x = a + 1 then ucast (drop_bit 8 v)
          else if x = a + 2 then ucast (drop_bit 16 v)
          else if x = a + 3 then ucast (drop_bit 24 v)
          else m x)"

datatype ospfs_ftype = OSPFS_FTYPE_REG | OSPFS_FTYPE_DIR | OSPFS_FTYPE_SYMLINK

record ospfs_super =
  os_magic :: "32 word"
  os_nblocks :: "32 word"
  os_ninodes :: "32 word"
  os_firstinob :: "32 word"

text \<open>
  One slot of the inode table. \<^verbatim>\<open>ospfs_symlink_inode_t\<close> is a second view of the same
  slot in which the link text replaces the block pointers; the record keeps the text in a
  field of its own, \<open>oi_symlink\<close>, a NUL-terminated character array.
\<close>

record ospfs_inode =
  oi_size :: "32 word"
  oi_ftype :: ospfs_ftype
  oi_nlink :: "32 word"
  oi_mode :: "32 word"
  oi_direct :: "nat \<Rightarrow> 32 word"
  oi_indirect :: "32 word"
  oi_indirect2 :: "32 word"
  oi_symlink :: string

record ospfs =
  superblk :: ospfs_super
  itable :: "nat \<Rightarrow> ospfs_inode"
  ospfs_data :: image

section \<open>Bitvector operations\<close>

text \<open>\<^verbatim>\<open>vector\<close> is the byte address of the bitmap inside the image.\<close>

definition bitvector_set :: "image \<Rightarrow> nat \<Rightarrow> nat \<Rightarrow> image" where
  "bitvector_set m vector i =
     wr32 m (vector + 4 * (i div 32))
       (rd32 m (vector + 4 * (i div 32)) OR push_bit (i mod 32) 1)"

definition bitvector_clear :: "image \<Rightarrow> nat \<Rightarrow> nat \<Rightarrow> image" where
  "bitvector_clear m vector i =
     wr32 m (vector + 4 * (i div 32))
       (rd32 m (vector + 4 * (i div 32)) AND NOT (push_bit (i mod 32) 1))"

definition bitvector_test :: "image \<Rightarrow> nat \<Rightarrow> nat \<Rightarrow> bool" where
  "bitvector_test m vector i =
     (rd32 m (vector + 4 * (i div 32)) AND push_bit (i mod 32) 1 \<noteq> 0)"

section \<open>Helper functions\<close>

definition ospfs_size2nblocks :: "32 word \<Rightarrow> 32 word" where
  "ospfs_size2nblocks sz = (sz + 1024 - 1) div 1024"

text \<open>\<^verbatim>\<open>ospfs_block(blockno)\<close> is \<^verbatim>\<open>&ospfs_data[blockno * OSPFS_BLKSIZE]\<close>; the product is
  computed in 32 bits.\<close>

definition ospfs_block :: "32 word \<Rightarrow> nat" where
  "ospfs_block blockno = unat (blockno * 1024)"

definition ospfs_inode :: "ospfs \<Rightarrow> nat \<Rightarrow> ospfs_inode option" where
  "ospfs_inode s ino =
     (if ino \<ge> unat (os_ninodes (superblk s)) then None else Some (itable s ino))"

definition ospfs_inode_blockno :: "image \<Rightarrow> ospfs_inode \<Rightarrow> 32 word \<Rightarrow> 32 word" where
  "ospfs_inode_blockno m oi offset =
     (let blockno = offset div 1024 in
      if offset \<ge> oi_size oi \<or> oi_ftype oi = OSPFS_FTYPE_SYMLINK then 0
      else if blockno \<ge> 10 + 256 then
        (let blockoff = blockno - (10 + 256);
             indirect2_block = ospfs_block (oi_indirect2 oi);
             indirect_block =
               ospfs_block (rd32 m (indirect2_block + 4 * unat (blockoff div 256)))
         in rd32 m (indirect_block + 4 * unat (blockoff mod 256)))
      else if blockno \<ge> 10 then
        rd32 m (ospfs_block (oi_indirect oi) + 4 * unat (blockno - 10))
      else oi_direct oi (unat blockno))"

definition ospfs_inode_data :: "image \<Rightarrow> ospfs_inode \<Rightarrow> 32 word \<Rightarrow> nat" where
  "ospfs_inode_data m oi offset =
     ospfs_block (ospfs_inode_blockno m oi offset) + unat (offset mod 1024)"

section \<open>Free-block bitmap\<close>

text \<open>
  The scan of \<^verbatim>\<open>allocate_block\<close>: \<open>idx\<close> runs from \<^verbatim>\<open>os_firstinob\<close> to \<^verbatim>\<open>os_nblocks\<close>,
  \<open>freemap_idx\<close> selects the bitmap block the tests read. The source moves to the next
  bitmap block once, after it has tested \<open>idx = OSPFS_BLKBITSIZE\<close>.
\<close>

function allocate_scan :: "image \<Rightarrow> nat \<Rightarrow> nat \<Rightarrow> nat \<Rightarrow> 32 word \<times> image" where
  "allocate_scan m nblocks freemap_idx idx =
     (if idx < nblocks then
        (let freemap = (OSPFS_FREEMAP_BLK + freemap_idx) * OSPFS_BLKSIZE in
         if bitvector_test m freemap (idx mod OSPFS_BLKBITSIZE)
         then (of_nat idx, bitvector_clear m freemap (idx mod OSPFS_BLKBITSIZE))
         else allocate_scan m nblocks
                (if idx = OSPFS_BLKBITSIZE then freemap_idx + 1 else freemap_idx) (idx + 1))
      else (0, m))"
  by pat_completeness auto
termination
  by (relation "measure (\<lambda>(m, nblocks, freemap_idx, idx). nblocks - idx)") auto

declare allocate_scan.simps [simp del]

definition allocate_block :: "ospfs \<Rightarrow> 32 word \<times> ospfs" where
  "allocate_block s =
     (let (b, m) = allocate_scan (ospfs_data s) (unat (os_nblocks (superblk s))) 0
                     (unat (os_firstinob (superblk s)))
      in (b, s\<lparr>ospfs_data := m\<rparr>))"

definition free_block :: "ospfs \<Rightarrow> 32 word \<Rightarrow> ospfs" where
  "free_block s blockno =
     (let freemap_idx = unat (blockno div 8192);
          freemap = (OSPFS_FREEMAP_BLK + freemap_idx) * OSPFS_BLKSIZE
      in s\<lparr>ospfs_data := bitvector_set (ospfs_data s) freemap (unat (blockno mod 8192))\<rparr>)"

section \<open>Unpacking a file block index\<close>

definition indir2_index :: "32 word \<Rightarrow> int" where
  "indir2_index b =
     (if b < 256 + 10 then - 1
      else if b < 256 * 256 + 256 + 10 then 0
      else - 2)"

definition indir_index :: "32 word \<Rightarrow> int" where
  "indir_index b =
     (if b < 10 then - 1
      else if b < 256 + 10 then 0
      else if b < 256 * 256 + 256 + 10 then uint ((b - (256 + 10)) div 256)
      else - 2)"

definition direct_index :: "32 word \<Rightarrow> int" where
  "direct_index b =
     (if b < 10 then uint b
      else if b < 10 + 256 then uint (b - 10)
      else if b < 10 + 256 + 256 * 256 then uint ((b - 10 - 256) mod 256)
      else - 1)"

section \<open>Growing and shrinking a file\<close>

text \<open>
  The mutating functions take the image and the number of the inode the C pointer \<open>oi\<close>
  points to, and return the result code with the new image.
\<close>

definition set_inode :: "ospfs \<Rightarrow> nat \<Rightarrow> ospfs_inode \<Rightarrow> ospfs" where
  "set_inode s ino oi = s\<lparr>itable := (itable s)(ino := oi)\<rparr>"

text \<open>The loop that sets the \<open>OSPFS_BLKSIZE\<close> bytes of a block to zero.\<close>

definition zero_block :: "image \<Rightarrow> 32 word \<Rightarrow> image" where
  "zero_block m blockno =
     (\<lambda>x. if ospfs_block blockno \<le> x \<and> x < ospfs_block blockno + OSPFS_BLKSIZE then 0
          else m x)"

text \<open>\<^verbatim>\<open>((uint32_t *) p)[i]\<close> for a byte address \<open>p\<close> and a signed index \<open>i\<close>.\<close>

definition slot32 :: "nat \<Rightarrow> int \<Rightarrow> nat" where
  "slot32 p i = nat (int p + 4 * i)"

text \<open>
  The allocation loop of \<^verbatim>\<open>add_block\<close>: \<open>k\<close> blocks are still to be allocated and
  \<open>allocated\<close> holds the ones obtained so far, in order. When the bitmap is exhausted the
  blocks obtained so far are freed, last one first.
\<close>

fun allocate_loop :: "ospfs \<Rightarrow> nat \<Rightarrow> 32 word list \<Rightarrow> 32 word list option \<times> ospfs" where
  "allocate_loop s 0 allocated = (Some allocated, s)"
| "allocate_loop s (Suc k) allocated =
     (case allocate_block s of
        (b, s') \<Rightarrow>
          if b = 0 then (None, foldl free_block s' (rev allocated))
          else allocate_loop s' k (allocated @ [b]))"

definition add_block :: "ospfs \<Rightarrow> nat \<Rightarrow> int \<times> ospfs" where
  "add_block s ino =
     (let n = ospfs_size2nblocks (oi_size (itable s ino)) in
      if n = 0 then
        (case allocate_block s of
           (b, s1) \<Rightarrow>
             let s2 = set_inode s1 ino
                        ((itable s1 ino)\<lparr>oi_direct := (oi_direct (itable s1 ino))(0 := b)\<rparr>)
             in if b = 0 then (- ENOSPC, s2)
                else
                  let s3 = s2\<lparr>ospfs_data := zero_block (ospfs_data s2) b\<rparr>
                  in (0, set_inode s3 ino
                           ((itable s3 ino)\<lparr>oi_size := oi_size (itable s3 ino) + 1024\<rparr>)))
      else
        let new_blocks =
              (if indir2_index n \<noteq> indir2_index (n - 1) then 3
               else if indir_index n \<noteq> indir_index (n - 1) then 2
               else 1 :: nat)
        in case allocate_loop s new_blocks [] of
             (None, s1) \<Rightarrow> (- ENOSPC, s1)
           | (Some allocated, s1) \<Rightarrow>
               let m2 = foldl zero_block (ospfs_data s1) allocated;
                   oi = itable s1 ino;
                   s3 =
                     (if new_blocks = 3 then
                        let m3 = wr32 m2 (ospfs_block (allocated ! 2)) (allocated ! 1);
                            m4 = wr32 m3 (ospfs_block (allocated ! 1)) (allocated ! 0)
                        in set_inode (s1\<lparr>ospfs_data := m4\<rparr>) ino
                             (oi\<lparr>oi_indirect2 := allocated ! 2\<rparr>)
                      else if new_blocks = 2 then
                        let m3 = wr32 m2 (ospfs_block (allocated ! 1)) (allocated ! 0)
                        in if indir2_index n = 0 then
                             s1\<lparr>ospfs_data :=
                                  wr32 m3 (slot32 (ospfs_block (oi_indirect2 oi)) (indir_index n))
                                    (allocated ! 1)\<rparr>
                           else
                             s1\<lparr>ospfs_data :=
                                  wr32 m3 (ospfs_block (oi_indirect oi)) (allocated ! 1)\<rparr>
                      else if indir2_index n = 0 then
                        s1\<lparr>ospfs_data :=
                             wr32 m2
                               (slot32
                                  (ospfs_block
                                     (rd32 m2
                                        (slot32 (ospfs_block (oi_indirect2 oi)) (indir_index n))))
                                  (direct_index n))
                               (allocated ! 0)\<rparr>
                      else if indir_index n \<noteq> - 1 then
                        s1\<lparr>ospfs_data :=
                             wr32 m2 (slot32 (ospfs_block (oi_indirect oi)) (direct_index n))
                               (allocated ! 0)\<rparr>
                      else
                        set_inode (s1\<lparr>ospfs_data := m2\<rparr>) ino
                          (oi\<lparr>oi_direct :=
                                (oi_direct oi)(nat (direct_index n) := allocated ! 0)\<rparr>))
               in (0, set_inode s3 ino
                        ((itable s3 ino)\<lparr>oi_size := oi_size (itable s3 ino) + 1024\<rparr>)))"

definition remove_block :: "ospfs \<Rightarrow> nat \<Rightarrow> int \<times> ospfs" where
  "remove_block s ino =
     (let oi = itable s ino;
          m = ospfs_data s;
          n = ospfs_size2nblocks (oi_size oi);
          s1 =
            (if indir2_index n \<noteq> indir2_index (n - 1) then
               let a2 = oi_indirect2 oi;
                   a1 = rd32 m (ospfs_block a2);
                   a0 = rd32 m (ospfs_block a1)
               in free_block (free_block (free_block s a0) a1) a2
             else if indir_index n \<noteq> indir_index (n - 1) then
               (if indir2_index n = 0 then
                  let a2 = oi_indirect2 oi;
                      a1 = rd32 m (slot32 (ospfs_block a2) (indir_index (n - 1)));
                      a0 = rd32 m (slot32 (ospfs_block a1) (direct_index (n - 1)))
                  in free_block (free_block s a0) a1
                else
                  let a1 = oi_indirect oi;
                      a0 = rd32 m (slot32 (ospfs_block a1) (direct_index (n - 1)))
                  in free_block (free_block s a0) a1)
             else
               (if indir2_index n = 0 then
                  let a2 = oi_indirect2 oi;
                      a1 = rd32 m (slot32 (ospfs_block a2) (indir_index (n - 1)));
                      a0 = rd32 m (slot32 (ospfs_block a1) (direct_index (n - 1)))
                  in free_block s a0
                else if indir_index n \<noteq> - 1 then
                  let a1 = oi_indirect oi;
                      a0 = rd32 m (slot32 (ospfs_block a1) (direct_index (n - 1)))
                  in free_block s a0
                else free_block s (oi_direct oi (nat (direct_index (n - 1))))));
          sz1 = oi_size oi - oi_size oi mod 1024;
          sz2 = (if sz1 mod 1024 = 0 \<and> sz1 \<noteq> 0 then sz1 - 1024 else sz1)
      in (0, set_inode s1 ino ((itable s1 ino)\<lparr>oi_size := sz2\<rparr>)))"

subsection \<open>Block counts in 32-bit arithmetic\<close>

text \<open>
  \<^verbatim>\<open>change_size\<close> loops while the block count of the file differs from the block count of
  the requested size. Each successful \<^verbatim>\<open>add_block\<close> adds \<open>OSPFS_BLKSIZE\<close> to the size and
  each \<^verbatim>\<open>remove_block\<close> rounds it down; the lemmas below show that the block count moves by
  the 32-bit arithmetic of the source towards the target, which is what makes the two
  loops terminate.
\<close>

lemma u32_less: "unat (a :: 32 word) < 4294967296"
  using unsigned_less [of a] by simp

lemma u32_add:
  "unat (a + b :: 32 word) =
     (if unat a + unat b < 4294967296 then unat a + unat b else unat a + unat b - 4294967296)"
  using unat_plus_if' [of a b] by simp

lemma u32_sub:
  "unat (a - b :: 32 word) =
     (if unat b \<le> unat a then unat a - unat b else unat a + 4294967296 - unat b)"
  using unat_sub_if_size [of a b] by (simp add: word_size)

definition nb_nat :: "nat \<Rightarrow> nat" where
  "nb_nat u = (if u + 1023 < 4294967296 then u + 1023 else u + 1023 - 4294967296) div 1024"

lemma unat_nb: "unat (ospfs_size2nblocks sz) = nb_nat (unat sz)"
proof -
  have "sz + 1024 - 1 = sz + 1023" by simp
  then show ?thesis
    unfolding ospfs_size2nblocks_def nb_nat_def by (simp only: unat_div u32_add) simp
qed

lemma nb_nat_le: "u < 4294967296 \<Longrightarrow> nb_nat u \<le> 4194303"
proof -
  assume u: "u < 4294967296"
  let ?t = "if u + 1023 < 4294967296 then u + 1023 else u + 1023 - 4294967296"
  have "?t < 4194304 * 1024" using u by (cases "u + 1023 < 4294967296") simp_all
  then have "?t div 1024 < 4194304" by (rule less_mult_imp_div_less)
  then show ?thesis by (simp add: nb_nat_def)
qed

lemma nb_nat_grow:
  assumes u: "u < 4294967296" and lt: "nb_nat u < 4194303"
  shows "nb_nat (if u + 1024 < 4294967296 then u + 1024 else u + 1024 - 4294967296) = nb_nat u + 1"
proof -
  let ?t = "if u + 1023 < 4294967296 then u + 1023 else u + 1023 - 4294967296"
  have "?t div 1024 < 4194303" using lt by (simp add: nb_nat_def)
  then have t: "?t < 4194303 * 1024" by (simp add: div_less_iff_less_mult)
  let ?u' = "if u + 1024 < 4294967296 then u + 1024 else u + 1024 - 4294967296"
  have "(if ?u' + 1023 < 4294967296 then ?u' + 1023 else ?u' + 1023 - 4294967296) = ?t + 1024"
  proof (cases "u + 1023 < 4294967296")
    case True
    with t have "u + 1023 < 4194303 * 1024" by simp
    then have "u + 1024 < 4294967296" "u + 1024 + 1023 < 4294967296" by linarith+
    then show ?thesis using True by simp
  next
    case False
    then have a: "\<not> u + 1024 < 4294967296" by linarith
    have b: "u + 1024 - 4294967296 + 1023 < 4294967296" using u by linarith
    have c: "u + 1024 - 4294967296 + 1023 = u + 1023 - 4294967296 + 1024" using False by linarith
    show ?thesis using False a b c by (simp only: if_False if_True)
  qed
  then have "nb_nat ?u' = (?t + 1024) div 1024" unfolding nb_nat_def by (simp only:)
  also have "\<dots> = ?t div 1024 + 1" by (rule div_add_self2) simp
  finally show ?thesis by (simp add: nb_nat_def)
qed

lemma nb_grow:
  assumes "ospfs_size2nblocks sz < ospfs_size2nblocks new"
  shows "unat (ospfs_size2nblocks (sz + 1024)) = unat (ospfs_size2nblocks sz) + 1"
proof -
  have "nb_nat (unat sz) < nb_nat (unat new)"
    using assms by (simp add: word_less_nat_alt unat_nb)
  then have "nb_nat (unat sz) < 4194303" using nb_nat_le [OF u32_less [of new]] by linarith
  then have g: "nb_nat (if unat sz + 1024 < 4294967296 then unat sz + 1024
                       else unat sz + 1024 - 4294967296) = nb_nat (unat sz) + 1"
    by (rule nb_nat_grow [OF u32_less])
  have e: "unat (1024 :: 32 word) = 1024" by simp
  show ?thesis unfolding unat_nb u32_add e by (rule g)
qed


lemma nb_nat_shrink:
  assumes u: "u < 4294967296" and pos: "0 < nb_nat u"
  shows "nb_nat (if u - u mod 1024 = 0 then u - u mod 1024 else u - u mod 1024 - 1024) < nb_nat u"
proof -
  have nowrap: "u + 1023 < 4294967296"
  proof (rule ccontr)
    assume "\<not> u + 1023 < 4294967296"
    then have "nb_nat u = (u + 1023 - 4294967296) div 1024" by (simp add: nb_nat_def)
    moreover have "u + 1023 - 4294967296 < 1024" using u by linarith
    ultimately show False using pos by simp
  qed
  then have n: "nb_nat u = (u + 1023) div 1024" by (simp add: nb_nat_def)
  let ?f = "u - u mod 1024"
  have f: "?f = 1024 * (u div 1024)" by (simp add: minus_mod_eq_mult_div)
  show ?thesis
  proof (cases "?f = 0")
    case True
    then show ?thesis using pos by (simp add: nb_nat_def)
  next
    case False
    then have d: "0 < u div 1024" using f by simp
    then have "?f - 1024 = 1024 * (u div 1024 - 1)" using f by (simp add: diff_mult_distrib2)
    moreover have "1024 * (u div 1024 - 1) + 1023 < 4294967296" using nowrap d by linarith
    ultimately have "nb_nat (?f - 1024) = (1024 * (u div 1024 - 1) + 1023) div 1024"
      by (simp add: nb_nat_def)
    also have "\<dots> = u div 1024 - 1" by simp
    also have "\<dots> < (u + 1023) div 1024" using d
      by (metis add_lessD1 diff_less div_le_mono le_add1 less_one order_less_le_trans)
    finally show ?thesis using False n by simp
  qed
qed

lemma nb_shrink:
  assumes "ospfs_size2nblocks new < ospfs_size2nblocks sz"
  shows "unat (ospfs_size2nblocks
           (if (sz - sz mod 1024) mod 1024 = 0 \<and> sz - sz mod 1024 \<noteq> 0
            then sz - sz mod 1024 - 1024 else sz - sz mod 1024))
         < unat (ospfs_size2nblocks sz)"
proof -
  have m: "unat (sz mod 1024) = unat sz mod 1024" by (simp add: unat_mod)
  have s': "unat (sz - sz mod 1024) = unat sz - unat sz mod 1024"
    by (simp add: u32_sub m)
  have z: "(sz - sz mod 1024 = 0) = (unat sz - unat sz mod 1024 = 0)"
    using s' by (metis unat_eq_0)
  have z2: "(sz - sz mod 1024) mod 1024 = 0"
    by (rule word_unat_eq_iff [THEN iffD2]) (simp add: unat_mod s')
  have pos: "0 < nb_nat (unat sz)" using assms by (simp add: word_less_nat_alt unat_nb)
  have ge: "unat sz - unat sz mod 1024 \<noteq> 0 \<Longrightarrow> 1024 \<le> unat sz - unat sz mod 1024"
    by (metis dvd_imp_le dvd_minus_mod not_gr_zero)
  have e: "unat (1024 :: 32 word) = 1024" by simp
  have s'': "unat (sz - sz mod 1024 - 1024) = unat sz - unat sz mod 1024 - 1024"
    if nz: "unat sz - unat sz mod 1024 \<noteq> 0"
  proof -
    from ge [OF nz] have "unat (1024 :: 32 word) \<le> unat (sz - sz mod 1024)"
      unfolding e s' .
    then have "unat (sz - sz mod 1024 - 1024) = unat (sz - sz mod 1024) - unat (1024 :: 32 word)"
      by (simp only: u32_sub if_True)
    then show ?thesis unfolding e s' .
  qed
  let ?X = "sz - sz mod 1024"
  show ?thesis
  proof (cases "unat sz - unat sz mod 1024 = 0")
    case True
    then have X0: "?X = 0" using z by simp
    have "nb_nat 0 < nb_nat (unat sz)"
      using nb_nat_shrink [OF u32_less pos] True by simp
    then show ?thesis by (simp add: X0 unat_nb)
  next
    case False
    then have Xne: "?X \<noteq> 0" using z by simp
    have I: "(if ?X mod 1024 = 0 \<and> ?X \<noteq> 0 then ?X - 1024 else ?X) = ?X - 1024"
      using z2 Xne by (simp only: simp_thms if_True not_False_eq_True)
    have "nb_nat (unat sz - unat sz mod 1024 - 1024) < nb_nat (unat sz)"
      using nb_nat_shrink [OF u32_less pos] False by simp
    then show ?thesis unfolding I unat_nb s'' [OF False] .
  qed
qed

lemma itable_free_block [simp]: "itable (free_block s b) = itable s"
  by (simp add: free_block_def Let_def)

lemma superblk_free_block [simp]: "superblk (free_block s b) = superblk s"
  by (simp add: free_block_def Let_def)

lemma itable_allocate_block [simp]: "itable (snd (allocate_block s)) = itable s"
  by (simp add: allocate_block_def split: prod.splits)

lemma superblk_allocate_block [simp]: "superblk (snd (allocate_block s)) = superblk s"
  by (simp add: allocate_block_def split: prod.splits)

lemma itable_foldl_free [simp]: "itable (foldl free_block s bs) = itable s"
  by (induction bs arbitrary: s) simp_all

lemma itable_allocate_loop [simp]: "itable (snd (allocate_loop s k acc)) = itable s"
proof (induction k arbitrary: s acc)
  case 0
  then show ?case by simp
next
  case (Suc k)
  obtain b s' where a: "allocate_block s = (b, s')" by (cases "allocate_block s")
  then have "itable s' = itable s" using itable_allocate_block [of s] by simp
  then show ?case using Suc [of s' "acc @ [b]"] a by simp
qed

lemma add_block_size:
  assumes "add_block s ino = (r, s')" and "\<not> r < 0"
  shows "oi_size (itable s' ino) = oi_size (itable s ino) + 1024"
proof (cases "ospfs_size2nblocks (oi_size (itable s ino)) = 0")
  case True
  obtain b s1 where a: "allocate_block s = (b, s1)" by (cases "allocate_block s")
  then have i: "itable s1 = itable s" using itable_allocate_block [of s] by simp
  show ?thesis using assms True a i
    by (auto simp: add_block_def Let_def set_inode_def split: if_splits)
next
  case False
  let ?n = "ospfs_size2nblocks (oi_size (itable s ino))"
  let ?k = "if indir2_index ?n \<noteq> indir2_index (?n - 1) then 3
            else if indir_index ?n \<noteq> indir_index (?n - 1) then 2 else 1 :: nat"
  obtain al s1 where a: "allocate_loop s ?k [] = (al, s1)" by (cases "allocate_loop s ?k []")
  then have i: "itable s1 = itable s" using itable_allocate_loop [of s ?k "[]"] by simp
  show ?thesis
  proof (cases al)
    case None
    then show ?thesis using assms False a by (simp add: add_block_def Let_def)
  next
    case (Some allocated)
    then show ?thesis using assms False a i
      by (auto simp: add_block_def Let_def set_inode_def split: if_splits)
  qed
qed

lemma remove_block_size:
  assumes "remove_block s ino = (r, s')"
  shows "oi_size (itable s' ino) =
     (if (oi_size (itable s ino) - oi_size (itable s ino) mod 1024) mod 1024 = 0
         \<and> oi_size (itable s ino) - oi_size (itable s ino) mod 1024 \<noteq> 0
      then oi_size (itable s ino) - oi_size (itable s ino) mod 1024 - 1024
      else oi_size (itable s ino) - oi_size (itable s ino) mod 1024)"
  using assms by (auto simp: remove_block_def Let_def set_inode_def split: if_splits)

lemma grow_measure:
  assumes "ospfs_size2nblocks (oi_size (itable s ino)) < ospfs_size2nblocks new_size"
    and "add_block s ino = (r, s')" and "\<not> r < 0"
  shows "unat (ospfs_size2nblocks new_size) - unat (ospfs_size2nblocks (oi_size (itable s' ino)))
       < unat (ospfs_size2nblocks new_size) - unat (ospfs_size2nblocks (oi_size (itable s ino)))"
proof -
  have "unat (ospfs_size2nblocks (oi_size (itable s' ino))) =
        unat (ospfs_size2nblocks (oi_size (itable s ino))) + 1"
    unfolding add_block_size [OF assms(2,3)] by (rule nb_grow [OF assms(1)])
  moreover have "unat (ospfs_size2nblocks (oi_size (itable s ino)))
      < unat (ospfs_size2nblocks new_size)"
    using assms(1) by (simp add: word_less_nat_alt)
  ultimately show ?thesis by simp
qed

lemma shrink_measure:
  assumes "ospfs_size2nblocks new_size < ospfs_size2nblocks (oi_size (itable s ino))"
    and "remove_block s ino = (r, s')"
  shows "unat (ospfs_size2nblocks (oi_size (itable s' ino)))
       < unat (ospfs_size2nblocks (oi_size (itable s ino)))"
  using nb_shrink [OF assms(1)] unfolding remove_block_size [OF assms(2)] .

text \<open>
  The two loops of \<^verbatim>\<open>change_size\<close>. The first returns as soon as \<^verbatim>\<open>add_block\<close> fails;
  nothing is undone there.
\<close>

function change_size_grow :: "ospfs \<Rightarrow> nat \<Rightarrow> 32 word \<Rightarrow> int \<times> ospfs" where
  "change_size_grow s ino new_size =
     (if ospfs_size2nblocks (oi_size (itable s ino)) < ospfs_size2nblocks new_size then
        (case add_block s ino of
           (r, s') \<Rightarrow> if r < 0 then (r, s') else change_size_grow s' ino new_size)
      else (0, s))"
  by pat_completeness auto
termination
  by (relation "measure (\<lambda>(s, ino, new_size).
          unat (ospfs_size2nblocks new_size) - unat (ospfs_size2nblocks (oi_size (itable s ino))))")
     (auto intro: grow_measure [OF _ sym])

function change_size_shrink :: "ospfs \<Rightarrow> nat \<Rightarrow> 32 word \<Rightarrow> int \<times> ospfs" where
  "change_size_shrink s ino new_size =
     (if ospfs_size2nblocks (oi_size (itable s ino)) > ospfs_size2nblocks new_size then
        (case remove_block s ino of
           (r, s') \<Rightarrow> if r < 0 then (r, s') else change_size_shrink s' ino new_size)
      else (0, s))"
  by pat_completeness auto
termination
  by (relation "measure (\<lambda>(s, ino, new_size).
          unat (ospfs_size2nblocks (oi_size (itable s ino))))")
     (auto intro: shrink_measure [OF _ sym])

declare change_size_grow.simps [simp del] change_size_shrink.simps [simp del]

definition change_size :: "ospfs \<Rightarrow> nat \<Rightarrow> 32 word \<Rightarrow> int \<times> ospfs" where
  "change_size s ino new_size =
     (case change_size_grow s ino new_size of
        (r, s1) \<Rightarrow>
          if r < 0 then (r, s1)
          else
            (case change_size_shrink s1 ino new_size of
               (r', s2) \<Rightarrow>
                 if r' < 0 then (r', s2)
                 else (0, set_inode s2 ino ((itable s2 ino)\<lparr>oi_size := new_size\<rparr>))))"

section \<open>Reading and writing a file\<close>

text \<open>
  The user buffer is a list of bytes, \<open>count\<close> and the file position are natural numbers,
  and \<^verbatim>\<open>(uint32_t) *f_pos\<close> is the position reduced modulo \<open>2^32\<close>. Copies to and from user
  space are taken to succeed, so the \<open>-EFAULT\<close> returns do not appear. The read returns
  the result code, the bytes copied to the user and the new position.
\<close>

function ospfs_read_loop ::
  "image \<Rightarrow> ospfs_inode \<Rightarrow> nat \<Rightarrow> nat \<Rightarrow> nat \<Rightarrow> 8 word list \<Rightarrow> int \<times> 8 word list \<times> nat"
where
  "ospfs_read_loop m oi count amount f_pos buffer =
     (if amount < count then
        (let blockno = ospfs_inode_blockno m oi (of_nat f_pos) in
         if blockno = 0 then (- EIO, buffer, f_pos)
         else
           let data = ospfs_block blockno;
               n = (if count - amount > OSPFS_BLKSIZE then OSPFS_BLKSIZE else count - amount)
           in ospfs_read_loop m oi count (amount + n) (f_pos + n)
                (buffer @ map (\<lambda>i. m (data + i)) [0..<n]))
      else (int amount, buffer, f_pos))"
  by pat_completeness auto
termination
  by (relation "measure (\<lambda>(m, oi, count, amount, f_pos, buffer). count - amount)") auto

declare ospfs_read_loop.simps [simp del]

definition ospfs_read :: "ospfs \<Rightarrow> nat \<Rightarrow> nat \<Rightarrow> nat \<Rightarrow> int \<times> 8 word list \<times> nat" where
  "ospfs_read s ino count f_pos =
     (let oi = itable s ino;
          left = unat (oi_size oi - of_nat f_pos);
          count' = (if count < left then count else left)
      in ospfs_read_loop (ospfs_data s) oi count' 0 f_pos [])"

text \<open>\<^verbatim>\<open>copy_from_user(dst, buffer, n)\<close>: the bytes of the list go to \<open>dst\<close>, \<open>dst + 1\<close>, ...\<close>

definition copy_bytes :: "image \<Rightarrow> nat \<Rightarrow> 8 word list \<Rightarrow> image" where
  "copy_bytes m dst bytes =
     (\<lambda>x. if dst \<le> x \<and> x < dst + length bytes then bytes ! (x - dst) else m x)"

text \<open>The write takes the whole user buffer; \<open>count\<close> is its length.\<close>

function ospfs_write_loop ::
  "ospfs \<Rightarrow> nat \<Rightarrow> 8 word list \<Rightarrow> nat \<Rightarrow> nat \<Rightarrow> nat \<Rightarrow> int \<times> ospfs \<times> nat"
where
  "ospfs_write_loop s ino buffer amount f_pos init_offset =
     (if amount < length buffer then
        (let blockno = ospfs_inode_blockno (ospfs_data s) (itable s ino) (of_nat f_pos) in
         if blockno = 0 then (- EIO, s, f_pos)
         else
           let data = ospfs_block blockno;
               n = (if length buffer - amount > OSPFS_BLKSIZE then OSPFS_BLKSIZE
                    else length buffer - amount)
           in ospfs_write_loop
                (s\<lparr>ospfs_data :=
                     copy_bytes (ospfs_data s) (data + init_offset) (take n (drop amount buffer))\<rparr>)
                ino buffer (amount + n) (f_pos + n) 0)
      else (int amount, s, f_pos))"
  by pat_completeness auto
termination
  by (relation "measure (\<lambda>(s, ino, buffer, amount, f_pos, init_offset). length buffer - amount)")
     auto

declare ospfs_write_loop.simps [simp del]

definition ospfs_write :: "ospfs \<Rightarrow> nat \<Rightarrow> bool \<Rightarrow> 8 word list \<Rightarrow> nat \<Rightarrow> int \<times> ospfs \<times> nat" where
  "ospfs_write s ino o_append buffer f_pos0 =
     (let f_pos = (if o_append then unat (oi_size (itable s ino)) else f_pos0);
          init_offset = f_pos mod OSPFS_BLKSIZE;
          want = (of_nat (length buffer) + of_nat f_pos :: 32 word)
      in if want \<ge> oi_size (itable s ino) then
           (case change_size s ino want of
              (r, s') \<Rightarrow>
                if r < 0 then (r, s', f_pos)
                else ospfs_write_loop s' ino buffer 0 f_pos init_offset)
         else ospfs_write_loop s ino buffer 0 f_pos init_offset)"

section \<open>Directories\<close>

text \<open>
  A directory entry at byte address \<open>od\<close> of the image holds \<open>od_ino\<close> in its first four
  bytes and the NUL-terminated \<open>od_name\<close> after them. A name comes with its length
  (\<^verbatim>\<open>d_name.len\<close>), here the length of the list.

  \<^verbatim>\<open>strlen(od->od_name) == namelen\<close> holds when the first \<open>namelen\<close> bytes of the stored name
  are not NUL and the next one is; \<^verbatim>\<open>memcmp(od->od_name, name, namelen) == 0\<close> when those
  bytes are the bytes of \<open>name\<close>.
\<close>

definition od_name_is :: "image \<Rightarrow> nat \<Rightarrow> 8 word list \<Rightarrow> bool" where
  "od_name_is m od name =
     (list_all (\<lambda>i. m (od + 4 + i) \<noteq> 0) [0..<length name]
      \<and> m (od + 4 + length name) = 0
      \<and> map (\<lambda>i. m (od + 4 + i)) [0..<length name] = name)"

function find_direntry_loop :: "image \<Rightarrow> ospfs_inode \<Rightarrow> 8 word list \<Rightarrow> nat \<Rightarrow> nat option" where
  "find_direntry_loop m dir_oi name off =
     (if off < unat (oi_size dir_oi) then
        (let od = ospfs_inode_data m dir_oi (of_nat off) in
         if rd32 m od \<noteq> 0 \<and> od_name_is m od name then Some od
         else find_direntry_loop m dir_oi name (off + OSPFS_DIRENTRY_SIZE))
      else None)"
  by pat_completeness auto
termination
  by (relation "measure (\<lambda>(m, dir_oi, name, off). unat (oi_size dir_oi) - off)") auto

declare find_direntry_loop.simps [simp del]

definition find_direntry :: "image \<Rightarrow> ospfs_inode \<Rightarrow> 8 word list \<Rightarrow> nat option" where
  "find_direntry m dir_oi name = find_direntry_loop m dir_oi name 0"

text \<open>
  The scan of \<^verbatim>\<open>create_blank_direntry\<close> runs while the block mapping is not 0. \<open>dir_pos\<close> is
  a \<^verbatim>\<open>uint32_t\<close> and wraps, so the scan is a partial function: \<open>None\<close> is a scan that never
  ends. It yields the final \<open>dir_pos\<close> and the blank entry if it met one.
\<close>

partial_function (option) blank_scan ::
  "image \<Rightarrow> ospfs_inode \<Rightarrow> 32 word \<Rightarrow> (32 word \<times> nat option) option"
where
  "blank_scan m dir_oi dir_pos =
     (if ospfs_inode_blockno m dir_oi dir_pos \<noteq> 0 then
        (if rd32 m (ospfs_inode_data m dir_oi dir_pos) = 0
         then Some (dir_pos, Some (ospfs_inode_data m dir_oi dir_pos))
         else blank_scan m dir_oi (dir_pos + 128))
      else Some (dir_pos, None))"

text \<open>The result is an error pointer (\<open>Inl\<close> of the error code) or the address of an entry.\<close>

definition create_blank_direntry :: "ospfs \<Rightarrow> nat \<Rightarrow> ((int + nat) \<times> ospfs) option" where
  "create_blank_direntry s dir_ino =
     (case blank_scan (ospfs_data s) (itable s dir_ino) 0 of
        None \<Rightarrow> None
      | Some (dir_pos, Some dir_entry) \<Rightarrow> Some (Inr dir_entry, s)
      | Some (dir_pos, None) \<Rightarrow>
          (case change_size s dir_ino (dir_pos + 128) of
             (r, s') \<Rightarrow>
               if r < 0 then Some (Inl (- ENOSPC), s')
               else Some (Inr (ospfs_inode_data (ospfs_data s') (itable s' dir_ino) dir_pos), s')))"

text \<open>The loop that copies a name into \<open>od->od_name\<close>, and the terminating NUL.\<close>

definition set_od_name :: "image \<Rightarrow> nat \<Rightarrow> 8 word list \<Rightarrow> image" where
  "set_od_name m od name =
     (copy_bytes m (od + 4) name)(od + 4 + length name := 0)"

definition ospfs_link :: "ospfs \<Rightarrow> nat \<Rightarrow> nat \<Rightarrow> 8 word list \<Rightarrow> (int \<times> ospfs) option" where
  "ospfs_link s src_ino dir_ino dst_name =
     (if length dst_name > OSPFS_MAXNAMELEN then Some (- ENAMETOOLONG, s)
      else if find_direntry (ospfs_data s) (itable s dir_ino) dst_name \<noteq> None
      then Some (- EEXIST, s)
      else
        (case create_blank_direntry s dir_ino of
           None \<Rightarrow> None
         | Some (Inl e, s1) \<Rightarrow> Some (e, s1)
         | Some (Inr od, s1) \<Rightarrow>
             let m2 = wr32 (set_od_name (ospfs_data s1) od dst_name) od (of_nat src_ino);
                 s2 = s1\<lparr>ospfs_data := m2\<rparr>
             in Some (0, set_inode s2 src_ino
                           ((itable s2 src_ino)\<lparr>oi_nlink := oi_nlink (itable s2 src_ino) + 1\<rparr>))))"

text \<open>
  The search loop of \<^verbatim>\<open>ospfs_unlink\<close> leaves \<open>entry_off\<close> and the last entry it looked at
  (\<open>None\<close> for the initial \<^verbatim>\<open>NULL\<close>).
\<close>

function unlink_scan ::
  "image \<Rightarrow> ospfs_inode \<Rightarrow> 8 word list \<Rightarrow> nat \<Rightarrow> nat option \<Rightarrow> nat \<times> nat option"
where
  "unlink_scan m dir_oi name entry_off od =
     (if entry_off < unat (oi_size dir_oi) then
        (let od' = ospfs_inode_data m dir_oi (of_nat entry_off) in
         if rd32 m od' \<noteq> 0 \<and> od_name_is m od' name then (entry_off, Some od')
         else unlink_scan m dir_oi name (entry_off + OSPFS_DIRENTRY_SIZE) (Some od'))
      else (entry_off, od))"
  by pat_completeness auto
termination
  by (relation "measure (\<lambda>(m, dir_oi, name, entry_off, od). unat (oi_size dir_oi) - entry_off)")
     auto

declare unlink_scan.simps [simp del]

text \<open>
  \<open>ino\<close> is the inode of the dentry, \<open>dir_ino\<close> that of its parent. The entry pointer is
  \<^verbatim>\<open>NULL\<close> only when the loop body never ran, and then \<open>entry_off = 0 = oi_size\<close>.
\<close>

definition ospfs_unlink :: "ospfs \<Rightarrow> nat \<Rightarrow> nat \<Rightarrow> 8 word list \<Rightarrow> int \<times> ospfs" where
  "ospfs_unlink s ino dir_ino name =
     (case unlink_scan (ospfs_data s) (itable s dir_ino) name 0 None of
        (entry_off, od) \<Rightarrow>
          if entry_off = unat (oi_size (itable s dir_ino)) then (- ENOENT, s)
          else
            (case od of
               None \<Rightarrow> (- ENOENT, s)
             | Some p \<Rightarrow>
                 let s1 = s\<lparr>ospfs_data := wr32 (ospfs_data s) p 0\<rparr>
                 in (0, set_inode s1 ino
                          ((itable s1 ino)\<lparr>oi_nlink := oi_nlink (itable s1 ino) - 1\<rparr>))))"

text \<open>
  The inode search of \<^verbatim>\<open>ospfs_create\<close>: from \<open>entry_ino\<close> upwards, the first inode with
  \<open>oi_nlink = 0\<close>; \<open>None\<close> when \<^verbatim>\<open>ospfs_inode\<close> returns 0 first.
\<close>

function free_inode_scan :: "ospfs \<Rightarrow> nat \<Rightarrow> nat option" where
  "free_inode_scan s entry_ino =
     (case ospfs_inode s entry_ino of
        None \<Rightarrow> None
      | Some file_new_oi \<Rightarrow>
          if oi_nlink file_new_oi = 0 then Some entry_ino
          else free_inode_scan s (entry_ino + 1))"
  by pat_completeness auto
termination
  by (relation "measure (\<lambda>(s, entry_ino). unat (os_ninodes (superblk s)) - entry_ino)")
     (auto simp: ospfs_inode_def split: if_splits)

declare free_inode_scan.simps [simp del]

text \<open>
  \<^verbatim>\<open>ospfs_create\<close> does not test the result of \<^verbatim>\<open>create_blank_direntry\<close>; writing through
  an error pointer does not return, which is \<open>None\<close> here. The final
  \<^verbatim>\<open>ospfs_mk_linux_inode\<close> is taken to succeed.
\<close>

definition ospfs_create :: "ospfs \<Rightarrow> nat \<Rightarrow> 8 word list \<Rightarrow> 32 word \<Rightarrow> (int \<times> ospfs) option" where
  "ospfs_create s dir_ino name mode =
     (if find_direntry (ospfs_data s) (itable s dir_ino) name \<noteq> None then Some (- EEXIST, s)
      else
        (case create_blank_direntry s dir_ino of
           None \<Rightarrow> None
         | Some (Inl e, s1) \<Rightarrow> None
         | Some (Inr dir_new_entry, s1) \<Rightarrow>
             let s2 = s1\<lparr>ospfs_data := set_od_name (ospfs_data s1) dir_new_entry name\<rparr> in
             (case free_inode_scan s2 2 of
                None \<Rightarrow> Some (- ENOSPC, s2)
              | Some entry_ino \<Rightarrow>
                  let oi = itable s2 entry_ino;
                      s3 = set_inode s2 entry_ino
                             (oi\<lparr>oi_nlink := oi_nlink oi + 1, oi_mode := mode,
                                 oi_ftype := OSPFS_FTYPE_REG\<rparr>)
                  in if length name > OSPFS_MAXNAMELEN then Some (- ENAMETOOLONG, s3)
                     else
                       Some (0, s3\<lparr>ospfs_data :=
                                    wr32 (set_od_name (ospfs_data s3) dir_new_entry name)
                                      dir_new_entry (of_nat entry_ino)\<rparr>))))"

section \<open>Symbolic links\<close>

text \<open>
  \<^verbatim>\<open>ospfs_follow_link\<close> reads the character array \<open>oi_symlink\<close>. A scan that runs off the
  array has no result (\<open>None\<close>). \<open>scan_char t c i\<close> is the loop
  \<^verbatim>\<open>while (t[i] != c) i++\<close>, \<open>prefix_differs\<close> the loop that compares the first five
  characters with \<^verbatim>\<open>"root?"\<close>, and \<open>uid\<close> is \<^verbatim>\<open>current->uid\<close>. The link handed to
  \<^verbatim>\<open>nd_set_link\<close> is a C string: it ends at its first NUL. The \<^verbatim>\<open>kmalloc\<close> of the result
  buffer is taken to succeed.
\<close>

function scan_char :: "string \<Rightarrow> char \<Rightarrow> nat \<Rightarrow> nat option" where
  "scan_char t c i =
     (if i < length t then (if t ! i \<noteq> c then scan_char t c (i + 1) else Some i) else None)"
  by pat_completeness auto
termination
  by (relation "measure (\<lambda>(t, c, i). length t - i)") auto

declare scan_char.simps [simp del]

function prefix_differs :: "string \<Rightarrow> nat \<Rightarrow> bool option" where
  "prefix_differs t idx =
     (if idx < 5 then
        (if idx < length t then
           (if ''root?'' ! idx \<noteq> t ! idx then Some True else prefix_differs t (idx + 1))
         else None)
      else Some False)"
  by pat_completeness auto
termination
  by (relation "measure (\<lambda>(t, idx). 5 - idx)") auto

declare prefix_differs.simps [simp del]

definition ospfs_follow_link :: "ospfs_inode \<Rightarrow> nat \<Rightarrow> string option" where
  "ospfs_follow_link oi uid =
     (let t = oi_symlink oi in
      case prefix_differs t 0 of
        None \<Rightarrow> None
      | Some True \<Rightarrow> map_option (\<lambda>e. take e t) (scan_char t (CHR 0x00) 0)
      | Some False \<Rightarrow>
          (case (if uid = 0 then Some (5, CHR '':'')
                 else map_option (\<lambda>p. (p + 1, CHR 0x00)) (scan_char t (CHR '':'') 5)) of
             None \<Rightarrow> None
           | Some (start, endchar) \<Rightarrow>
               (case scan_char t endchar start of
                  None \<Rightarrow> None
                | Some e \<Rightarrow>
                    Some (takeWhile (\<lambda>c. c \<noteq> CHR 0x00) (take (e - start) (drop start t))))))"

section \<open>Example images\<close>

text \<open>
  A small image: eight blocks, the inode table starts at block 3, every inode is an
  empty regular file with one link. The word at byte 2048 is the first word of the free
  bitmap (block 2); bit \<open>i\<close> set means block \<open>i\<close> is free.
\<close>

definition empty_inode :: ospfs_inode where
  "empty_inode =
     \<lparr>oi_size = 0, oi_ftype = OSPFS_FTYPE_REG, oi_nlink = 1, oi_mode = 0,
      oi_direct = (\<lambda>_. 0), oi_indirect = 0, oi_indirect2 = 0, oi_symlink = []\<rparr>"

definition small_disk :: "8 word \<Rightarrow> ospfs" where
  "small_disk freebits =
     \<lparr>superblk = \<lparr>os_magic = 0, os_nblocks = 8, os_ninodes = 16, os_firstinob = 3\<rparr>,
      itable = (\<lambda>_. empty_inode),
      ospfs_data = (\<lambda>a. if a = 2048 then freebits else 0)\<rparr>"

lemmas eval_defs =
  allocate_block_def allocate_scan.simps bitvector_test_def bitvector_clear_def
  bitvector_set_def free_block_def rd32_def wr32_def add_block_def remove_block_def
  ospfs_size2nblocks_def set_inode_def zero_block_def ospfs_block_def Let_def
  indir2_index_def indir_index_def direct_index_def slot32_def
  change_size_def change_size_grow.simps change_size_shrink.simps
  small_disk_def empty_inode_def

text \<open>
  The same image with an eight-byte file in inode 2, whose only block is block 4 and holds
  the bytes \<open>abcdefgh\<close>; and with an empty root directory in inode 1 and a free inode 2.
\<close>

definition file_disk :: ospfs where
  "file_disk =
     \<lparr>superblk = \<lparr>os_magic = 0, os_nblocks = 8, os_ninodes = 16, os_firstinob = 3\<rparr>,
      itable = (\<lambda>_. empty_inode)
        (2 := empty_inode\<lparr>oi_size := 8, oi_direct := (\<lambda>_. 0)(0 := 4)\<rparr>),
      ospfs_data = copy_bytes (\<lambda>a. if a = 2048 then 0xE0 else 0) 4096
                     [0x61, 0x62, 0x63, 0x64, 0x65, 0x66, 0x67, 0x68]\<rparr>"

definition dir_disk :: ospfs where
  "dir_disk =
     \<lparr>superblk = \<lparr>os_magic = 0, os_nblocks = 8, os_ninodes = 16, os_firstinob = 3\<rparr>,
      itable = (\<lambda>_. empty_inode)
        (1 := empty_inode\<lparr>oi_ftype := OSPFS_FTYPE_DIR\<rparr>,
         2 := empty_inode\<lparr>oi_nlink := 0\<rparr>),
      ospfs_data = (\<lambda>a. if a = 2048 then 0xF0 else 0)\<rparr>"

lemmas eval_io =
  ospfs_read_def ospfs_read_loop.simps ospfs_write_def ospfs_write_loop.simps
  copy_bytes_def ospfs_inode_blockno_def ospfs_inode_data_def upt_rec

lemmas eval_dir =
  find_direntry_def find_direntry_loop.simps od_name_is_def blank_scan.simps
  create_blank_direntry_def set_od_name_def ospfs_link_def unlink_scan.simps ospfs_unlink_def
  free_inode_scan.simps ospfs_create_def ospfs_inode_def

section \<open>Consistent directories\<close>









text \<open>The number of blocks \<^verbatim>\<open>add_block\<close> allocates for a file of \<open>n\<close> blocks, \<open>n > 0\<close>.\<close>

definition new_blocks :: "32 word \<Rightarrow> nat" where
  "new_blocks n =
     (if indir2_index n \<noteq> indir2_index (n - 1) then 3
      else if indir_index n \<noteq> indir_index (n - 1) then 2
      else 1)"







section \<open>Properties of \<^verbatim>\<open>change_size\<close>\<close>

text \<open>
  C1 (all-or-nothing growth). The claim: when \<^verbatim>\<open>change_size\<close> fails with \<open>-ENOSPC\<close> while
  growing, the size, the block pointers and the bitmap are what they were on entry. The
  code returns from the grow loop at the first failing \<^verbatim>\<open>add_block\<close> and undoes nothing.
  On the image with block 4 as its only free block, growing the empty file of inode 2 to
  two blocks fails with \<open>-ENOSPC\<close>, and at return the size is 1024 (it was 0),
  \<open>oi_direct[0]\<close> is 4 (it was 0) and the bitmap word is 0 (it was \<open>0x10\<close>).
\<close>

theorem change_size_enospc_not_rolled_back:
  "fst (change_size (small_disk 0x10) 2 2048) = - ENOSPC
   \<and> oi_size (itable (small_disk 0x10) 2) = 0
   \<and> oi_size (itable (snd (change_size (small_disk 0x10) 2 2048)) 2) = 1024
   \<and> oi_direct (itable (small_disk 0x10) 2) 0 = 0
   \<and> oi_direct (itable (snd (change_size (small_disk 0x10) 2 2048)) 2) 0 = 4
   \<and> rd32 (ospfs_data (small_disk 0x10)) 2048 = 0x10
   \<and> rd32 (ospfs_data (snd (change_size (small_disk 0x10) 2 2048))) 2048 = 0"
  by (simp add: eval_defs)

lemma nb_nat_ceil:
  assumes "u < 4294967296" and "v < 4294967296"
    and "(u + 1023) div 1024 = (v + 1023) div 1024"
  shows "nb_nat u = nb_nat v"
proof (cases "u + 1023 < 4294967296")
  case True
  then have "(u + 1023) div 1024 < 4194304" by (simp add: div_less_iff_less_mult)
  then have "(v + 1023) div 1024 < 4194304" using assms(3) by simp
  then have "v + 1023 < 4294967296" by (simp add: div_less_iff_less_mult)
  with True assms(3) show ?thesis by (simp add: nb_nat_def)
next
  case False
  then have "\<not> (u + 1023) div 1024 < 4194304" by (simp add: div_less_iff_less_mult)
  then have "\<not> (v + 1023) div 1024 < 4194304" using assms(3) by simp
  then have v: "\<not> v + 1023 < 4294967296" by (simp add: div_less_iff_less_mult)
  have "u + 1023 - 4294967296 < 1024" "v + 1023 - 4294967296 < 1024"
    using assms(1,2) by linarith+
  then show ?thesis using False v by (simp add: nb_nat_def)
qed

text \<open>
  C10 (same block count). When the requested size needs as many blocks as the current
  size, \<open>ceil(new_size / B) = ceil(oi_size / B)\<close>, \<^verbatim>\<open>change_size\<close> returns 0 and the image it
  leaves is the image on entry with \<open>oi_size\<close> of that one inode set to \<open>new_size\<close>: the
  superblock, the bitmap, every data and index block, every block pointer and every other
  inode are the same.
\<close>

theorem change_size_same_block_count:
  assumes "(unat new_size + 1023) div 1024 = (unat (oi_size (itable s ino)) + 1023) div 1024"
  shows "change_size s ino new_size =
           (0, s\<lparr>itable := (itable s)(ino := (itable s ino)\<lparr>oi_size := new_size\<rparr>)\<rparr>)"
proof -
  have "unat (ospfs_size2nblocks new_size) = unat (ospfs_size2nblocks (oi_size (itable s ino)))"
    unfolding unat_nb using assms by (intro nb_nat_ceil u32_less)
  then have e: "ospfs_size2nblocks new_size = ospfs_size2nblocks (oi_size (itable s ino))"
    by (simp add: word_unat_eq_iff)
  have g: "change_size_grow s ino new_size = (0, s)"
    by (subst change_size_grow.simps) (simp add: e)
  have h: "change_size_shrink s ino new_size = (0, s)"
    by (subst change_size_shrink.simps) (simp add: e)
  show ?thesis by (simp add: change_size_def g h set_inode_def)
qed

theorem change_size_same_block_count_witness:
  "(unat (1000 :: 32 word) + 1023) div 1024
     = (unat (oi_size (itable (set_inode (small_disk 0) 2
           (empty_inode\<lparr>oi_size := 5, oi_direct := (\<lambda>_. 0)(0 := 4)\<rparr>)) 2)) + 1023) div 1024
   \<and> fst (change_size (set_inode (small_disk 0) 2
           (empty_inode\<lparr>oi_size := 5, oi_direct := (\<lambda>_. 0)(0 := 4)\<rparr>)) 2 1000) = 0
   \<and> oi_size (itable (snd (change_size (set_inode (small_disk 0) 2
           (empty_inode\<lparr>oi_size := 5, oi_direct := (\<lambda>_. 0)(0 := 4)\<rparr>)) 2 1000)) 2) = 1000
   \<and> oi_direct (itable (snd (change_size (set_inode (small_disk 0) 2
           (empty_inode\<lparr>oi_size := 5, oi_direct := (\<lambda>_. 0)(0 := 4)\<rparr>)) 2 1000)) 2) 0 = 4
   \<and> ospfs_data (snd (change_size (set_inode (small_disk 0) 2
           (empty_inode\<lparr>oi_size := 5, oi_direct := (\<lambda>_. 0)(0 := 4)\<rparr>)) 2 1000))
       = ospfs_data (small_disk 0)"
proof -
  let ?s = "set_inode (small_disk 0) 2 (empty_inode\<lparr>oi_size := 5, oi_direct := (\<lambda>_. 0)(0 := 4)\<rparr>)"
  have h: "(unat (1000 :: 32 word) + 1023) div 1024
             = (unat (oi_size (itable ?s 2)) + 1023) div 1024"
    by (simp add: set_inode_def)
  show ?thesis
    using h change_size_same_block_count [OF h]
    by (simp add: set_inode_def small_disk_def)
qed

text \<open>
  C2 (grow, then shrink back). The claim: growing a file and shrinking it back to its
  original size restores the bitmap and the block pointers of the inode, every shrink
  step zeroing the slot whose block it frees. \<^verbatim>\<open>remove_block\<close> frees blocks and never
  writes a pointer or a slot. On the image with blocks 4 to 7 free and the empty file of
  inode 2: after growing to 1024 and shrinking to 0, \<open>oi_direct[0]\<close> is still 4 (it was
  0). After growing to 1500 and shrinking to 0 the bitmap word is \<open>0xE0\<close> (it was
  \<open>0xF0\<close>): the single \<^verbatim>\<open>remove_block\<close> call frees block 5 and takes the size from 1500 to
  0, so block 4 stays marked in use.
\<close>

theorem grow_then_shrink_not_restored:
  "fst (change_size (small_disk 0xF0) 2 1024) = 0
   \<and> fst (change_size (snd (change_size (small_disk 0xF0) 2 1024)) 2 0) = 0
   \<and> oi_size (itable (snd (change_size (snd (change_size (small_disk 0xF0) 2 1024)) 2 0)) 2) = 0
   \<and> oi_direct (itable (small_disk 0xF0) 2) 0 = 0
   \<and> oi_direct (itable (snd (change_size (snd (change_size (small_disk 0xF0) 2 1024)) 2 0)) 2) 0
       = 4
   \<and> fst (change_size (small_disk 0xF0) 2 1500) = 0
   \<and> fst (change_size (snd (change_size (small_disk 0xF0) 2 1500)) 2 0) = 0
   \<and> rd32 (ospfs_data (small_disk 0xF0)) 2048 = 0xF0
   \<and> rd32 (ospfs_data (snd (change_size (snd (change_size (small_disk 0xF0) 2 1500)) 2 0))) 2048
       = 0xE0"
  by (simp add: eval_defs)

section \<open>Properties of the free-block bitmap\<close>

lemma rd32_wr32_same: "rd32 (wr32 m a v) a = v"
  unfolding rd32_def wr32_def
  apply simp
  apply (rule bit_word_eqI)
  subgoal for n
    apply (cases "n < 8"; cases "n < 16"; cases "n < 24")
    apply (auto simp add: bit_simps)
    done
  done

lemma rd32_wr32_other: "a + 4 \<le> b \<or> b + 4 \<le> a \<Longrightarrow> rd32 (wr32 m a v) b = rd32 m b"
  unfolding rd32_def wr32_def by auto

lemma bitvector_test_bit:
  "bitvector_test m v i = bit (rd32 m (v + 4 * (i div 32))) (i mod 32)"
  by (simp add: bitvector_test_def bit_iff_and_push_bit_not_eq_0)

lemma bitvector_test_clear:
  "bitvector_test (bitvector_clear m v i) v j = (bitvector_test m v j \<and> j \<noteq> i)"
proof (cases "j div 32 = i div 32")
  case True
  then have "(j \<noteq> i) = (j mod 32 \<noteq> i mod 32)"
    by (metis div_mult_mod_eq)
  then show ?thesis using True
    by (auto simp: bitvector_test_bit bitvector_clear_def rd32_wr32_same bit_simps)
next
  case False
  then have "v + 4 * (i div 32) + 4 \<le> v + 4 * (j div 32) \<or> v + 4 * (j div 32) + 4 \<le> v + 4 * (i div 32)"
    by linarith
  then show ?thesis using False
    by (auto simp: bitvector_test_bit bitvector_clear_def rd32_wr32_other)
qed

lemma allocate_scan_none:
  assumes "nblocks \<le> 8192"
    and "\<forall>i. idx \<le> i \<and> i < nblocks \<longrightarrow> \<not> bitvector_test m 2048 i"
  shows "allocate_scan m nblocks 0 idx = (0, m)"
  using assms
proof (induction "nblocks - idx" arbitrary: idx)
  case 0
  then show ?case by (subst allocate_scan.simps) simp
next
  case (Suc k)
  then have lt: "idx < nblocks" by simp
  then have ne: "idx \<noteq> 8192" using Suc.prems(1) by simp
  have nt: "\<not> bitvector_test m 2048 idx" using Suc.prems(2) lt by simp
  have md: "idx mod 8192 = idx" using lt Suc.prems(1) by simp
  have "allocate_scan m nblocks 0 (idx + 1) = (0, m)"
    using Suc.hyps(2) Suc.prems by (intro Suc.hyps(1)) auto
  then show ?case using lt ne nt md by (subst allocate_scan.simps) simp
qed

lemma allocate_scan_first:
  assumes "nblocks \<le> 8192" and "idx \<le> b" and "b < nblocks"
    and "bitvector_test m 2048 b"
    and "\<forall>i. idx \<le> i \<and> i < b \<longrightarrow> \<not> bitvector_test m 2048 i"
  shows "allocate_scan m nblocks 0 idx = (of_nat b, bitvector_clear m 2048 b)"
  using assms
proof (induction "b - idx" arbitrary: idx)
  case 0
  then have e: "idx = b" by simp
  have md: "b mod 8192 = b" using 0 by simp
  show ?case unfolding e using 0 md by (subst allocate_scan.simps) simp
next
  case (Suc k)
  then have lt: "idx < b" by simp
  then have ltn: "idx < nblocks" using Suc.prems by simp
  then have ne: "idx \<noteq> 8192" using Suc.prems(1) by simp
  have nt: "\<not> bitvector_test m 2048 idx" using Suc.prems(5) lt by simp
  have md: "idx mod 8192 = idx" using ltn Suc.prems(1) by simp
  have "allocate_scan m nblocks 0 (idx + 1) = (of_nat b, bitvector_clear m 2048 b)"
    using Suc.hyps(2) Suc.prems lt by (intro Suc.hyps(1)) auto
  then show ?case using ltn ne nt md by (subst allocate_scan.simps) simp
qed

text \<open>
  C5 (allocation scan), as the code has it. The scan starts at \<^verbatim>\<open>os_firstinob\<close>, the
  first block of the inode table, not behind the table. For an image whose bitmap fits one
  block (\<open>os_nblocks \<le> OSPFS_BLKBITSIZE\<close>): when no block from \<^verbatim>\<open>os_firstinob\<close> to
  \<open>os_nblocks - 1\<close> has its bit set, \<^verbatim>\<open>allocate_block\<close> returns 0 and leaves the image as it
  is; otherwise it returns the smallest such block \<open>b\<close> whose bit is set, and in the image
  it leaves exactly that bit is cleared.
\<close>

theorem allocate_block_first_free:
  assumes "unat (os_nblocks (superblk s)) \<le> OSPFS_BLKBITSIZE"
  shows "((\<forall>i. unat (os_firstinob (superblk s)) \<le> i \<and> i < unat (os_nblocks (superblk s))
              \<longrightarrow> \<not> bitvector_test (ospfs_data s) 2048 i)
            \<longrightarrow> allocate_block s = (0, s))
       \<and> (unat (os_firstinob (superblk s)) \<le> b \<and> b < unat (os_nblocks (superblk s))
            \<and> bitvector_test (ospfs_data s) 2048 b
            \<and> (\<forall>i. unat (os_firstinob (superblk s)) \<le> i \<and> i < b
                  \<longrightarrow> \<not> bitvector_test (ospfs_data s) 2048 i)
            \<longrightarrow> allocate_block s = (of_nat b, s\<lparr>ospfs_data := bitvector_clear (ospfs_data s) 2048 b\<rparr>)
               \<and> unat (fst (allocate_block s)) = b
               \<and> (\<forall>j. bitvector_test (ospfs_data (snd (allocate_block s))) 2048 j
                      = (bitvector_test (ospfs_data s) 2048 j \<and> j \<noteq> b)))"
proof (intro conjI impI)
  assume "\<forall>i. unat (os_firstinob (superblk s)) \<le> i \<and> i < unat (os_nblocks (superblk s))
              \<longrightarrow> \<not> bitvector_test (ospfs_data s) 2048 i"
  from allocate_scan_none [OF assms this]
  show "allocate_block s = (0, s)" by (simp add: allocate_block_def)
next
  assume h: "unat (os_firstinob (superblk s)) \<le> b \<and> b < unat (os_nblocks (superblk s))
            \<and> bitvector_test (ospfs_data s) 2048 b
            \<and> (\<forall>i. unat (os_firstinob (superblk s)) \<le> i \<and> i < b
                  \<longrightarrow> \<not> bitvector_test (ospfs_data s) 2048 i)"
  then have sc: "allocate_scan (ospfs_data s) (unat (os_nblocks (superblk s))) 0
           (unat (os_firstinob (superblk s))) = (of_nat b, bitvector_clear (ospfs_data s) 2048 b)"
    using assms by (intro allocate_scan_first) auto
  then show a: "allocate_block s = (of_nat b, s\<lparr>ospfs_data := bitvector_clear (ospfs_data s) 2048 b\<rparr>)"
    by (simp add: allocate_block_def)
  have "b < 8192" using h assms by simp
  then show "unat (fst (allocate_block s)) = b"
    unfolding a by (simp add: unat_of_nat)
  show "\<forall>j. bitvector_test (ospfs_data (snd (allocate_block s))) 2048 j
                      = (bitvector_test (ospfs_data s) 2048 j \<and> j \<noteq> b)"
    unfolding a by (simp add: bitvector_test_clear)
qed

theorem allocate_block_first_free_witness:
  "unat (os_nblocks (superblk (small_disk 0x28))) \<le> OSPFS_BLKBITSIZE
   \<and> bitvector_test (ospfs_data (small_disk 0x28)) 2048 3
   \<and> fst (allocate_block (small_disk 0x28)) = 3
   \<and> \<not> bitvector_test (ospfs_data (snd (allocate_block (small_disk 0x28)))) 2048 3
   \<and> bitvector_test (ospfs_data (snd (allocate_block (small_disk 0x28)))) 2048 5
   \<and> allocate_block (small_disk 0) = (0, small_disk 0)"
proof -
  have n: "unat (os_nblocks (superblk (small_disk x))) \<le> OSPFS_BLKBITSIZE" for x
    by (simp add: small_disk_def)
  have t: "bitvector_test (ospfs_data (small_disk 0x28)) 2048 i = (i = 3 \<or> i = 5)"
    if "i < 8" for i
  proof -
    from that have "i \<in> {0, 1, 2, 3, 4, 5, 6, 7}" by auto
    then show ?thesis
      by (auto simp: small_disk_def bitvector_test_def rd32_def)
  qed
  have z: "\<not> bitvector_test (ospfs_data (small_disk 0)) 2048 i" for i
    by (simp add: small_disk_def bitvector_test_def rd32_def)
  have f: "unat (os_firstinob (superblk (small_disk x))) = 3" for x
    by (simp add: small_disk_def)
  have b: "unat (os_nblocks (superblk (small_disk x))) = 8" for x
    by (simp add: small_disk_def)
  have five: "bitvector_test (ospfs_data (small_disk 0x28)) 2048 5" using t [of 5] by simp
  have three: "bitvector_test (ospfs_data (small_disk 0x28)) 2048 3" using t [of 3] by simp
  have pre: "unat (os_firstinob (superblk (small_disk 0x28))) \<le> 3
      \<and> 3 < unat (os_nblocks (superblk (small_disk 0x28)))
      \<and> bitvector_test (ospfs_data (small_disk 0x28)) 2048 3
      \<and> (\<forall>i. unat (os_firstinob (superblk (small_disk 0x28))) \<le> i \<and> i < 3
            \<longrightarrow> \<not> bitvector_test (ospfs_data (small_disk 0x28)) 2048 i)"
    using three by (auto simp: f b)
  have none: "\<forall>i. unat (os_firstinob (superblk (small_disk 0))) \<le> i
        \<and> i < unat (os_nblocks (superblk (small_disk 0)))
      \<longrightarrow> \<not> bitvector_test (ospfs_data (small_disk 0)) 2048 i"
    using z by simp
  note first = allocate_block_first_free [OF n [of "0x28"], of 3, THEN conjunct2, THEN mp, OF pre]
  note empty = allocate_block_first_free [OF n [of 0], of 0, THEN conjunct1, THEN mp, OF none]
  note bits = first [THEN conjunct2, THEN conjunct2, rule_format]
  have "fst (allocate_block (small_disk 0x28)) = 3" using first [THEN conjunct1] by simp
  moreover have "\<not> bitvector_test (ospfs_data (snd (allocate_block (small_disk 0x28)))) 2048 3"
    using bits [of 3] by simp
  moreover have "bitvector_test (ospfs_data (snd (allocate_block (small_disk 0x28)))) 2048 5"
    using bits [of 5] five by simp
  ultimately show ?thesis using n [of "0x28"] three empty by simp
qed

text \<open>
  The claim as stated fails: with the bits of blocks 3 and 5 set, the code returns block 3,
  which is \<^verbatim>\<open>os_firstinob\<close>, the first block of the inode table, and not block 5.
\<close>

theorem allocate_block_returns_inode_block:
  "fst (allocate_block (small_disk 0x28)) = os_firstinob (superblk (small_disk 0x28))
   \<and> fst (allocate_block (small_disk 0x28)) \<noteq> 5
   \<and> 0 < os_ninodes (superblk (small_disk 0x28))"
  by (simp add: eval_defs)

section \<open>Properties of the block mapping\<close>

text \<open>
  The three tiers of \<^verbatim>\<open>ospfs_inode_blockno\<close>. For an inode that is not a symbolic link and
  a byte offset below its size, with \<open>b = offset / B\<close>, the result is \<open>oi_direct[b]\<close> when
  \<open>b < ND\<close>; entry \<open>b - ND\<close> of the block \<open>oi_indirect\<close> when \<open>ND \<le> b < ND + NI\<close>; and, when
  \<open>ND + NI \<le> b < ND + NI + NI\<^sup>2\<close>, entry \<open>(b - ND - NI) mod NI\<close> of the block whose number is
  entry \<open>(b - ND - NI) / NI\<close> of the block \<open>oi_indirect2\<close>.
\<close>

lemma ospfs_inode_blockno_tier:
  assumes "oi_ftype oi \<noteq> OSPFS_FTYPE_SYMLINK" and "offset < oi_size oi"
    and "b = unat offset div 1024"
  shows "b < 10 \<Longrightarrow> ospfs_inode_blockno m oi offset = oi_direct oi b"
    and "10 \<le> b \<Longrightarrow> b < 10 + 256 \<Longrightarrow>
           ospfs_inode_blockno m oi offset = rd32 m (ospfs_block (oi_indirect oi) + 4 * (b - 10))"
    and "10 + 256 \<le> b \<Longrightarrow> b < 10 + 256 + 256 * 256 \<Longrightarrow>
           ospfs_inode_blockno m oi offset =
             rd32 m (ospfs_block (rd32 m (ospfs_block (oi_indirect2 oi)
                                           + 4 * ((b - 10 - 256) div 256)))
                     + 4 * ((b - 10 - 256) mod 256))"
proof -
  let ?b = "offset div 1024"
  have b: "unat ?b = b" by (simp add: unat_div assms(3))
  have ge266: "(266 \<le> ?b) = (266 \<le> b)"
    by (simp add: word_le_nat_alt b)
  have ge10: "(10 \<le> ?b) = (10 \<le> b)"
    by (simp add: word_le_nat_alt b)
  have s10: "10 \<le> b \<Longrightarrow> unat (?b - 10) = b - 10"
    using b by (simp add: unat_sub word_le_nat_alt)
  have s266: "266 \<le> b \<Longrightarrow> unat (?b - 266) = b - 266"
    using b by (simp add: unat_sub word_le_nat_alt)
  have d: "unat ((?b - 266) div 256) = unat (?b - 266) div 256"
    by (simp add: unat_div)
  have md: "unat ((?b - 266) mod 256) = unat (?b - 266) mod 256"
    by (simp add: unat_mod)
  have nle: "\<not> oi_size oi \<le> offset" using assms(2) by simp
  show "b < 10 \<Longrightarrow> ospfs_inode_blockno m oi offset = oi_direct oi b"
    using assms(1) nle by (simp add: ospfs_inode_blockno_def Let_def ge266 ge10 b)
  show "10 \<le> b \<Longrightarrow> b < 10 + 256 \<Longrightarrow>
           ospfs_inode_blockno m oi offset = rd32 m (ospfs_block (oi_indirect oi) + 4 * (b - 10))"
    using assms(1) nle by (simp add: ospfs_inode_blockno_def Let_def ge266 ge10 s10)
  show "10 + 256 \<le> b \<Longrightarrow> b < 10 + 256 + 256 * 256 \<Longrightarrow>
           ospfs_inode_blockno m oi offset =
             rd32 m (ospfs_block (rd32 m (ospfs_block (oi_indirect2 oi)
                                           + 4 * ((b - 10 - 256) div 256)))
                     + 4 * ((b - 10 - 256) mod 256))"
    using assms(1) nle by (simp add: ospfs_inode_blockno_def Let_def ge266 s266 d md)
qed

text \<open>
  C3 (block mapping). The claim: for a regular file and a byte offset below its size the
  mapping returns the slot of the tier the block index falls in, and this result is a
  nonzero block number. The slots are the ones the claim names, but the result is not
  always nonzero. \<^verbatim>\<open>ospfs_size2nblocks(0xFFFFFFFF)\<close> is 0, because \<open>size + B - 1\<close> wraps in
  32 bits; so \<^verbatim>\<open>change_size\<close> of an empty regular file to \<open>0xFFFFFFFF\<close> allocates nothing,
  sets the size and returns 0. On the image with blocks 4 to 7 free the bitmap word is
  still \<open>0xF0\<close> afterwards, and for offset 0, which is below the size, the mapping
  returns \<open>oi_direct[0] = 0\<close>.
\<close>

theorem blockno_zero_below_size:
  "ospfs_size2nblocks 0xFFFFFFFF = 0
   \<and> fst (change_size (small_disk 0xF0) 2 0xFFFFFFFF) = 0
   \<and> oi_ftype (itable (snd (change_size (small_disk 0xF0) 2 0xFFFFFFFF)) 2) = OSPFS_FTYPE_REG
   \<and> oi_size (itable (snd (change_size (small_disk 0xF0) 2 0xFFFFFFFF)) 2) = 0xFFFFFFFF
   \<and> rd32 (ospfs_data (snd (change_size (small_disk 0xF0) 2 0xFFFFFFFF))) 2048 = 0xF0
   \<and> ospfs_inode_blockno (ospfs_data (snd (change_size (small_disk 0xF0) 2 0xFFFFFFFF)))
         (itable (snd (change_size (small_disk 0xF0) 2 0xFFFFFFFF)) 2) 0 = 0"
  by (simp add: eval_defs ospfs_inode_blockno_def)

section \<open>Properties of read and write\<close>

text \<open>
  C4 (write, then read). The claim: after a successful write of \<open>buf\<close> at \<open>pos\<close>, reading
  \<open>|buf|\<close> bytes at \<open>pos\<close> returns \<open>buf\<close>. \<^verbatim>\<open>ospfs_write\<close> stores the first bytes at offset
  \<open>pos mod B\<close> of the block; \<^verbatim>\<open>ospfs_read\<close> copies from the start of the block. On the
  image with blocks 4 to 7 free, writing \<open>abc\<close> at position 5 of the empty file of inode 2
  returns 3 and puts the bytes at offsets 5 to 7 of block 4; reading 3 bytes at position
  5 then returns 3 and the bytes \<open>0 0 0\<close>.
\<close>

theorem write_then_read_differs:
  "fst (ospfs_write (small_disk 0xF0) 2 False [0x61, 0x62, 0x63] 5) = 3
   \<and> map (ospfs_data (fst (snd (ospfs_write (small_disk 0xF0) 2 False [0x61, 0x62, 0x63] 5))))
        [4096 + 5, 4096 + 6, 4096 + 7] = [0x61, 0x62, 0x63]
   \<and> ospfs_read (fst (snd (ospfs_write (small_disk 0xF0) 2 False [0x61, 0x62, 0x63] 5))) 2 3 5
       = (3, [0, 0, 0], 8)"
  by (simp add: eval_defs eval_io)

text \<open>
  C6 (read). The claim: a read copies the file bytes at offsets \<open>pos\<close> to
  \<open>pos + n - 1\<close> with \<open>n = min(count, max(0, size - pos))\<close>, and returns \<open>n\<close>, also for
  \<open>pos > size\<close>. On the eight-byte file \<open>abcdefgh\<close>, reading 3 bytes at position 5
  returns \<open>abc\<close>, the bytes at offsets 0 to 2, and not \<open>fgh\<close>; reading 3 bytes at position
  20 returns \<open>-EIO\<close> and not 0, because \<open>size - pos\<close> is computed in unsigned 32 bits and
  \<open>count\<close> is not clamped.
\<close>

theorem read_ignores_block_offset:
  "oi_size (itable file_disk 2) = 8
   \<and> map (ospfs_data file_disk) [4096 + 5, 4096 + 6, 4096 + 7] = [0x66, 0x67, 0x68]
   \<and> ospfs_read file_disk 2 3 5 = (3, [0x61, 0x62, 0x63], 8)
   \<and> ospfs_read file_disk 2 3 20 = (- EIO, [], 20)"
  by (simp add: eval_defs eval_io file_disk_def)

section \<open>Properties of the namespace operations\<close>

text \<open>
  C7 (user errors leave the image alone). \<^verbatim>\<open>ospfs_link\<close> tests the name length and the
  name collision before it touches the image, and so does \<^verbatim>\<open>ospfs_create\<close> for the
  collision.
\<close>

lemma ospfs_link_name_too_long:
  "length dst_name > OSPFS_MAXNAMELEN \<Longrightarrow>
     ospfs_link s src_ino dir_ino dst_name = Some (- ENAMETOOLONG, s)"
  by (simp add: ospfs_link_def)

lemma ospfs_link_exists:
  "length dst_name \<le> OSPFS_MAXNAMELEN \<Longrightarrow>
   find_direntry (ospfs_data s) (itable s dir_ino) dst_name \<noteq> None \<Longrightarrow>
     ospfs_link s src_ino dir_ino dst_name = Some (- EEXIST, s)"
  by (simp add: ospfs_link_def)

lemma ospfs_create_exists:
  "find_direntry (ospfs_data s) (itable s dir_ino) name \<noteq> None \<Longrightarrow>
     ospfs_create s dir_ino name mode = Some (- EEXIST, s)"
  by (simp add: ospfs_create_def)

text \<open>
  \<^verbatim>\<open>ospfs_create\<close> tests the name length only after it has taken a directory entry,
  copied the name into it and claimed an inode. In the empty root directory (inode 1) of
  the example image, creating a file with a name of 124 bytes returns \<open>-ENAMETOOLONG\<close>,
  and at return the free inode 2 has \<open>oi_nlink = 1\<close> (it was 0), the directory has size
  128 (it was 0), block 4 is marked in use (the bitmap word was \<open>0xF0\<close>) and the first
  byte of the name is in the directory block.
\<close>

theorem ospfs_create_name_too_long_mutates:
  "map_option fst (ospfs_create dir_disk 1 (replicate 124 0x61) 0x1A4) = Some (- ENAMETOOLONG)
   \<and> oi_nlink (itable dir_disk 2) = 0
   \<and> map_option (\<lambda>r. oi_nlink (itable (snd r) 2))
        (ospfs_create dir_disk 1 (replicate 124 0x61) 0x1A4) = Some 1
   \<and> oi_size (itable dir_disk 1) = 0
   \<and> map_option (\<lambda>r. oi_size (itable (snd r) 1))
        (ospfs_create dir_disk 1 (replicate 124 0x61) 0x1A4) = Some 128
   \<and> rd32 (ospfs_data dir_disk) 2048 = 0xF0
   \<and> map_option (\<lambda>r. rd32 (ospfs_data (snd r)) 2048)
        (ospfs_create dir_disk 1 (replicate 124 0x61) 0x1A4) = Some 0xE0
   \<and> ospfs_data dir_disk 4100 = 0
   \<and> map_option (\<lambda>r. ospfs_data (snd r) 4100)
        (ospfs_create dir_disk 1 (replicate 124 0x61) 0x1A4) = Some 0x61"
  by (simp add: eval_defs eval_io eval_dir dir_disk_def)

section \<open>Properties of the symlink interpreter\<close>

lemma scan_char_append:
  assumes "i \<le> length xs" and "c \<notin> set (drop i xs)"
  shows "scan_char (xs @ c # ys) c i = Some (length xs)"
  using assms
proof (induction "length xs - i" arbitrary: i)
  case 0
  then have "i = length xs" by simp
  then show ?case by (subst scan_char.simps) simp
next
  case (Suc k)
  then have lt: "i < length xs" by simp
  then have "xs ! i \<in> set (drop i xs)"
    by (metis Cons_nth_drop_Suc list.set_intros(1))
  then have ne: "xs ! i \<noteq> c" using Suc.prems(2) by auto
  have "c \<notin> set (drop (i + 1) xs)"
    using Suc.prems(2) by (metis Suc_eq_plus1 in_set_dropD set_drop_subset_set_drop subsetD le_add1) 
  then have "scan_char (xs @ c # ys) c (i + 1) = Some (length xs)"
    using Suc.hyps(2) lt by (intro Suc.hyps(1)) auto
  then show ?case using lt ne by (subst scan_char.simps) (simp add: nth_append)
qed

lemma scan_char_from:
  assumes "c \<notin> set mid" and "n = length pre"
  shows "scan_char (pre @ mid @ c # ys) c n = Some (n + length mid)"
  using scan_char_append [of "length pre" "pre @ mid" c ys] assms by simp

lemma prefix_differs_root: "prefix_differs (''root?'' @ t) 0 = Some False"
  by (simp add: prefix_differs.simps)

lemma prefix_differs_unroll:
  "prefix_differs t 0 =
     (case t of [] \<Rightarrow> None
      | a # t1 \<Rightarrow> if a \<noteq> CHR ''r'' then Some True else
     (case t1 of [] \<Rightarrow> None
      | b # t2 \<Rightarrow> if b \<noteq> CHR ''o'' then Some True else
     (case t2 of [] \<Rightarrow> None
      | c # t3 \<Rightarrow> if c \<noteq> CHR ''o'' then Some True else
     (case t3 of [] \<Rightarrow> None
      | d # t4 \<Rightarrow> if d \<noteq> CHR ''t'' then Some True else
     (case t4 of [] \<Rightarrow> None
      | e # t5 \<Rightarrow> if e \<noteq> CHR ''?'' then Some True else Some False)))))"
  by (auto simp: prefix_differs.simps split: list.splits)

lemma prefix_differs_other:
  assumes "take 5 T \<noteq> ''root?''" and "CHR 0x00 \<notin> set T"
  shows "prefix_differs (T @ CHR 0x00 # rest) 0 = Some True"
  using assms unfolding prefix_differs_unroll
  by (auto split: list.splits simp: append_eq_Cons_conv)

text \<open>
  C8 (conditional symbolic links). When the stored text is \<open>root?\<close>, a segment \<open>A\<close>
  without a colon, a colon and a segment \<open>B\<close>, followed by the terminating NUL,
  \<^verbatim>\<open>ospfs_follow_link\<close> yields \<open>A\<close> for uid 0 and \<open>B\<close> for every other uid. When the stored
  text \<open>T\<close> does not begin with \<open>root?\<close>, it yields \<open>T\<close> for every uid. (The colon that
  ends \<open>A\<close> is the first one after the prefix; \<open>B\<close> may contain colons.)
\<close>

theorem ospfs_follow_link_conditional:
  "(CHR '':'' \<notin> set A \<and> CHR 0x00 \<notin> set A \<and> CHR 0x00 \<notin> set B
      \<and> oi_symlink oi = ''root?'' @ A @ '':'' @ B @ [CHR 0x00] @ rest
    \<longrightarrow> ospfs_follow_link oi 0 = Some A
        \<and> (\<forall>uid. uid \<noteq> 0 \<longrightarrow> ospfs_follow_link oi uid = Some B))
   \<and> (take 5 T \<noteq> ''root?'' \<and> CHR 0x00 \<notin> set T \<and> oi_symlink oi = T @ [CHR 0x00] @ rest
    \<longrightarrow> (\<forall>uid. ospfs_follow_link oi uid = Some T))"
proof (intro conjI impI allI)
  assume h: "CHR '':'' \<notin> set A \<and> CHR 0x00 \<notin> set A \<and> CHR 0x00 \<notin> set B
      \<and> oi_symlink oi = ''root?'' @ A @ '':'' @ B @ [CHR 0x00] @ rest"
  let ?t = "''root?'' @ A @ '':'' @ B @ [CHR 0x00] @ rest"
  have p: "prefix_differs ?t 0 = Some False" by (rule prefix_differs_root)
  have e1: "?t = ''root?'' @ A @ CHR '':'' # (B @ [CHR 0x00] @ rest)" by simp
  have e2: "?t = (''root?'' @ A @ '':'') @ B @ CHR 0x00 # rest" by simp
  have c: "scan_char ?t (CHR '':'') 5 = Some (5 + length A)"
    unfolding e1 by (rule scan_char_from) (use h in simp_all)
  have n: "scan_char ?t (CHR 0x00) (5 + length A + 1) = Some (5 + length A + 1 + length B)"
    unfolding e2 by (rule scan_char_from) (use h in simp_all)
  have tw: "\<And>xs. CHR 0x00 \<notin> set xs \<Longrightarrow> takeWhile (\<lambda>c. c \<noteq> CHR 0x00) xs = xs"
    by (simp add: takeWhile_eq_all_conv) metis
  have dA: "take (5 + length A - 5) (drop 5 ?t) = A" by simp
  have l: "5 + length A + 1 = length (''root?'' @ A @ '':'')" by simp
  have dB: "take (5 + length A + 1 + length B - (5 + length A + 1)) (drop (5 + length A + 1) ?t) = B"
    unfolding e2 l by simp
  have t: "oi_symlink oi = ?t" using h by simp
  show "ospfs_follow_link oi 0 = Some A"
    using h p c dA tw [of A] by (simp add: ospfs_follow_link_def Let_def)
  fix uid :: nat
  assume "uid \<noteq> 0"
  then show "ospfs_follow_link oi uid = Some B"
    using h p c n dB tw [of B] by (simp add: ospfs_follow_link_def Let_def)
next
  fix uid
  assume h: "take 5 T \<noteq> ''root?'' \<and> CHR 0x00 \<notin> set T \<and> oi_symlink oi = T @ [CHR 0x00] @ rest"
  then have p: "prefix_differs (T @ CHR 0x00 # rest) 0 = Some True"
    by (intro prefix_differs_other) auto
  have n: "scan_char (T @ CHR 0x00 # rest) (CHR 0x00) 0 = Some (length T)"
    using scan_char_append [of 0 T "CHR 0x00" rest] h by simp
  show "ospfs_follow_link oi uid = Some T"
    using h p n by (simp add: ospfs_follow_link_def Let_def)
qed

theorem ospfs_follow_link_conditional_witness:
  "ospfs_follow_link (empty_inode\<lparr>oi_symlink := ''root?/etc/a:/home/u/a'' @ [CHR 0x00]\<rparr>) 0
     = Some ''/etc/a''
   \<and> ospfs_follow_link (empty_inode\<lparr>oi_symlink := ''root?/etc/a:/home/u/a'' @ [CHR 0x00]\<rparr>) 1000
     = Some ''/home/u/a''
   \<and> ospfs_follow_link (empty_inode\<lparr>oi_symlink := ''/tmp/x'' @ [CHR 0x00]\<rparr>) 1000
     = Some ''/tmp/x''"
  using ospfs_follow_link_conditional
     [of "''/etc/a''" "''/home/u/a''"
         "empty_inode\<lparr>oi_symlink := ''root?/etc/a:/home/u/a'' @ [CHR 0x00]\<rparr>" "[]" "''zzzzzz''"]
    ospfs_follow_link_conditional
     [of "[]" "[]" "empty_inode\<lparr>oi_symlink := ''/tmp/x'' @ [CHR 0x00]\<rparr>" "[]" "''/tmp/x''"]
  by simp

section \<open>Hard links\<close>

subsection \<open>Frames of the memory operations\<close>



lemma zero_block_other:
  "x < ospfs_block b \<or> ospfs_block b + 1024 \<le> x \<Longrightarrow> zero_block m b x = m x"
  by (auto simp: zero_block_def)

lemma copy_bytes_other: "x < dst \<or> dst + length bs \<le> x \<Longrightarrow> copy_bytes m dst bs x = m x"
  by (auto simp: copy_bytes_def)

lemma copy_bytes_in: "i < length bs \<Longrightarrow> copy_bytes m dst bs (dst + i) = bs ! i"
  by (simp add: copy_bytes_def)






subsection \<open>Directory scans\<close>




subsection \<open>The index slots the block mapping reads\<close>



subsection \<open>Free blocks and what an allocation changes\<close>








subsection \<open>The index helpers on each tier\<close>


lemma u32_lt_num: "((n :: 32 word) < numeral k) = (unat n < unat (numeral k :: 32 word))"
  by (rule word_less_nat_alt)






subsection \<open>What one more block changes\<close>


























subsection \<open>Entries of a directory\<close>













subsection \<open>Growing a directory by one entry\<close>










subsection \<open>A consistent directory\<close>
























end
